theory Spec2Isabelle
  imports Complex_Main "HOL-Library.Sublist"
begin

section \<open>Record model\<close>

text \<open>
  One search hit is a Python dictionary decoded from the provider's JSON answer. The
  pipeline reads five keys of it, each of which may be missing; a missing key is
  \<open>None\<close>. The value under \<open>types\<close> is a list of dictionaries of which only the key
  \<open>name\<close> is read, so a type tag is that one optional string. Scores are numbers
  (whole or fractional), compared exactly with the integer threshold.
\<close>

type_synonym type_tag = "string option"

record entity =
  id' :: "string option"
  name :: "string option"
  score :: "rat option"
  description :: "string option"
  types :: "type_tag list option"

text \<open>\<^verbatim>\<open>d.get(key, default)\<close>: the value under the key, or the default when the key is missing.\<close>

definition dict_get :: "'a option \<Rightarrow> 'a \<Rightarrow> 'a" where
  "dict_get field dflt = (case field of None \<Rightarrow> dflt | Some v \<Rightarrow> v)"

section \<open>Strings\<close>

text \<open>
  A string is a sequence of characters with code points below 256. On these,
  \<^verbatim>\<open>str.lower()\<close> works character by character: it maps the letters \<open>A\<close> to \<open>Z\<close>
  (codes 65 to 90) and the accented capitals of codes 192 to 222, the multiplication
  sign 215 apart, to the character 32 codes higher, and leaves every other character
  as it is.
\<close>

definition lower_char :: "char \<Rightarrow> char" where
  "lower_char c =
     (let n = (of_char c :: nat)
      in if (65 \<le> n \<and> n \<le> 90) \<or> (192 \<le> n \<and> n \<le> 222 \<and> n \<noteq> 215)
         then char_of (n + 32) else c)"

definition lower :: "string \<Rightarrow> string" where
  "lower s = map lower_char s"

text \<open>\<^verbatim>\<open>needle in hay\<close> on strings: the needle occurs as a contiguous run of the hay.\<close>

fun str_in :: "string \<Rightarrow> string \<Rightarrow> bool" where
  "str_in needle [] = (needle = [])"
| "str_in needle (c # cs) = (prefix needle (c # cs) \<or> str_in needle cs)"

section \<open>Filter functions\<close>

text \<open>The dictionary literal \<^verbatim>\<open>date_source_map\<close> of \<^verbatim>\<open>apply_filters\<close>.\<close>

definition date_source_map :: "(string \<times> string list) list" where
  "date_source_map =
     [(''2021-Present (Pandora)'', [''Pandora Papers'']),
      (''2016-2017 (Panama/Paradise/Bahamas)'',
         [''Panama Papers'', ''Paradise Papers'', ''Bahamas Leaks'']),
      (''2013 (Offshore Leaks)'', [''Offshore Leaks''])]"

text \<open>
  \<^verbatim>\<open>apply_filters\<close>: five stages, each an \<^verbatim>\<open>if\<close> that rebinds \<^verbatim>\<open>filtered\<close> to a list
  comprehension over its previous value. A non-empty list or string is true in a
  condition; \<^verbatim>\<open>any(... for x in xs)\<close> is \<open>list_ex\<close>.
\<close>

definition apply_filters ::
  "entity list \<Rightarrow> string list \<Rightarrow> string \<Rightarrow> int \<Rightarrow> string \<Rightarrow> string \<Rightarrow> entity list" where
  "apply_filters results sources entity_type min_score jurisdiction date_range =
     (let filtered = results;
          filtered =
            (if sources \<noteq> [] then
               filter (\<lambda>r. list_ex (\<lambda>source.
                   str_in (lower source) (lower (dict_get (description r) ''''))
                   \<or> str_in (lower source) (lower (dict_get (name r) ''''))) sources) filtered
             else filtered);
          filtered =
            (if entity_type \<noteq> ''All'' then
               filter (\<lambda>r. (case types r of
                      None \<Rightarrow> False
                    | Some [] \<Rightarrow> False
                    | Some (t # ts) \<Rightarrow> dict_get t '''' = entity_type)) filtered
             else filtered);
          filtered =
            (if min_score > 0 then
               filter (\<lambda>r. dict_get (score r) 0 \<ge> of_int min_score) filtered
             else filtered);
          filtered =
            (if jurisdiction \<noteq> [] then
               filter (\<lambda>r.
                   str_in (lower jurisdiction) (lower (dict_get (description r) ''''))
                   \<or> str_in (lower jurisdiction) (lower (dict_get (name r) ''''))) filtered
             else filtered);
          filtered =
            (if date_range \<noteq> ''All Time'' then
               (let allowed_sources = dict_get (map_of date_source_map date_range) []
                in if allowed_sources \<noteq> [] then
                     filter (\<lambda>r. list_ex (\<lambda>src.
                         str_in (lower src) (lower (dict_get (description r) ''''))) allowed_sources)
                       filtered
                   else filtered)
             else filtered)
      in filtered)"

text \<open>
  The condition of each stage, taken alone: what the stage asks of a record when its
  \<^verbatim>\<open>if\<close> is entered, and nothing when it is not.
\<close>

definition source_stage :: "string list \<Rightarrow> entity \<Rightarrow> bool" where
  "source_stage sources r =
     (if sources \<noteq> [] then
        list_ex (\<lambda>source.
            str_in (lower source) (lower (dict_get (description r) ''''))
            \<or> str_in (lower source) (lower (dict_get (name r) ''''))) sources
      else True)"

definition type_stage :: "string \<Rightarrow> entity \<Rightarrow> bool" where
  "type_stage entity_type r =
     (if entity_type \<noteq> ''All'' then
        (case types r of
           None \<Rightarrow> False
         | Some [] \<Rightarrow> False
         | Some (t # ts) \<Rightarrow> dict_get t '''' = entity_type)
      else True)"

definition score_stage :: "int \<Rightarrow> entity \<Rightarrow> bool" where
  "score_stage min_score r =
     (if min_score > 0 then dict_get (score r) 0 \<ge> of_int min_score else True)"

definition jurisdiction_stage :: "string \<Rightarrow> entity \<Rightarrow> bool" where
  "jurisdiction_stage jurisdiction r =
     (if jurisdiction \<noteq> [] then
        str_in (lower jurisdiction) (lower (dict_get (description r) ''''))
        \<or> str_in (lower jurisdiction) (lower (dict_get (name r) ''''))
      else True)"

definition date_stage :: "string \<Rightarrow> entity \<Rightarrow> bool" where
  "date_stage date_range r =
     (if date_range \<noteq> ''All Time'' then
        (let allowed_sources = dict_get (map_of date_source_map date_range) []
         in if allowed_sources \<noteq> [] then
              list_ex (\<lambda>src.
                  str_in (lower src) (lower (dict_get (description r) ''''))) allowed_sources
            else True)
      else True)"

text \<open>
  The record model of the specification: the effective value of a field is the field's
  value, or its stated default when the field is missing. These four follow the
  specification's wording and are what the code's reads are compared with.
\<close>

definition effective_name :: "entity \<Rightarrow> string" where
  "effective_name r = (case name r of None \<Rightarrow> ''Unknown Entity'' | Some n \<Rightarrow> n)"

definition effective_score :: "entity \<Rightarrow> rat" where
  "effective_score r = (case score r of None \<Rightarrow> 0 | Some s \<Rightarrow> s)"

definition effective_description :: "entity \<Rightarrow> string" where
  "effective_description r = (case description r of None \<Rightarrow> '''' | Some d \<Rightarrow> d)"

definition effective_type :: "entity \<Rightarrow> string" where
  "effective_type r =
     (case types r of
        None \<Rightarrow> ''Entity''
      | Some [] \<Rightarrow> ''Entity''
      | Some (t # ts) \<Rightarrow> (case t of None \<Rightarrow> ''Entity'' | Some n \<Rightarrow> n))"


section \<open>Result limiter\<close>

text \<open>
  \<^verbatim>\<open>filtered_results[:max_results]\<close> in \<^verbatim>\<open>main\<close>. A slice with a non-negative bound
  takes that many leading elements; with a negative bound it drops that many trailing
  ones. The bound comes from a number input restricted to 5..100.
\<close>

definition limit :: "'a list \<Rightarrow> int \<Rightarrow> 'a list" where
  "limit records max_count =
     (if max_count \<ge> 0 then take (nat max_count) records
      else take (length records - nat (- max_count)) records)"

section \<open>Display path\<close>

text \<open>The five reads at the head of the result loop of \<^verbatim>\<open>main\<close>.\<close>

definition display_name :: "entity \<Rightarrow> string" where
  "display_name r = dict_get (name r) ''Unknown Entity''"

definition display_id :: "entity \<Rightarrow> string" where
  "display_id r = dict_get (id' r) ''''"

definition display_score :: "entity \<Rightarrow> rat" where
  "display_score r = dict_get (score r) 0"

definition display_description :: "entity \<Rightarrow> string" where
  "display_description r = dict_get (description r) ''''"

definition display_type :: "entity \<Rightarrow> string" where
  "display_type r =
     (case types r of
        None \<Rightarrow> ''Entity''
      | Some [] \<Rightarrow> ''Entity''
      | Some (t # ts) \<Rightarrow> dict_get t ''Entity'')"

section \<open>Export path\<close>

definition ICIJ_NODE_URL :: string where
  "ICIJ_NODE_URL = ''https://offshoreleaks.icij.org/nodes/''"

text \<open>
  The export table is a data frame built from the list of record dictionaries: it has a
  column for every key that some record carries, and the cell of a record without that
  key is the missing-value marker \<open>NaN\<close>. Selecting a column that no record carries
  raises \<open>KeyError\<close>.
\<close>

datatype cell = NaN | Str string | Num rat

datatype py_error = KeyError | TypeError

record dataframe =
  columns :: "string list"
  rows :: "cell list list"

definition has_column :: "(entity \<Rightarrow> 'a option) \<Rightarrow> entity list \<Rightarrow> bool" where
  "has_column key records = list_ex (\<lambda>r. key r \<noteq> None) records"

definition cell_of :: "('a \<Rightarrow> cell) \<Rightarrow> 'a option \<Rightarrow> cell" where
  "cell_of conv field = (case field of None \<Rightarrow> NaN | Some v \<Rightarrow> conv v)"

text \<open>
  The function applied to the \<open>types\<close> column,
  \<^verbatim>\<open>lambda x: x[0].get('name', 'Entity') if x and len(x) > 0 else 'Entity'\<close>.
  The marker of a missing cell counts as true in a condition and has no length, so on it
  \<^verbatim>\<open>len(x)\<close> raises \<open>TypeError\<close>; the empty list counts as false.
\<close>

definition type_cell :: "type_tag list option \<Rightarrow> py_error + cell" where
  "type_cell x =
     (case x of
        None \<Rightarrow> Inl TypeError
      | Some [] \<Rightarrow> Inr (Str ''Entity'')
      | Some (t # ts) \<Rightarrow> Inr (Str (dict_get t ''Entity'')))"

text \<open>The link column: the base address followed by the text of the id cell.\<close>

definition link_cell :: "string option \<Rightarrow> cell" where
  "link_cell x = Str (ICIJ_NODE_URL @ (case x of None \<Rightarrow> ''nan'' | Some s \<Rightarrow> s))"

text \<open>
  One row of \<^verbatim>\<open>df_export\<close>: name, score and id as they are in the record, the type
  cell when the frame has a \<open>types\<close> column, then the query, the time stamp and the link.
\<close>

definition export_row :: "bool \<Rightarrow> string \<Rightarrow> string \<Rightarrow> entity \<Rightarrow> py_error + cell list" where
  "export_row with_types query now r =
     (case (if with_types
            then (case type_cell (types r) of Inl e \<Rightarrow> Inl e | Inr c \<Rightarrow> Inr [c])
            else Inr [])
      of Inl e \<Rightarrow> Inl e
       | Inr type_part \<Rightarrow>
           Inr ([cell_of Str (name r), cell_of Num (score r), cell_of Str (id' r)]
                @ type_part
                @ [Str query, Str now, link_cell (id' r)]))"

text \<open>The first error of a list of results, or all their values.\<close>

fun collect :: "(py_error + 'a) list \<Rightarrow> py_error + 'a list" where
  "collect [] = Inr []"
| "collect (x # xs) =
     (case x of
        Inl e \<Rightarrow> Inl e
      | Inr v \<Rightarrow> (case collect xs of Inl e \<Rightarrow> Inl e | Inr vs \<Rightarrow> Inr (v # vs)))"

text \<open>
  "Prepare export data" in \<^verbatim>\<open>main\<close>: select the columns \<open>name\<close>, \<open>score\<close>, \<open>id\<close>,
  add the type column if the frame has a \<open>types\<close> column, rename, and add the three
  request-level columns. The time stamp is a parameter.
\<close>

definition prepare_export :: "entity list \<Rightarrow> string \<Rightarrow> string \<Rightarrow> py_error + dataframe" where
  "prepare_export filtered_results query now =
     (if \<not> (has_column name filtered_results \<and> has_column score filtered_results
             \<and> has_column id' filtered_results) then Inl KeyError
      else
        (let with_types = has_column types filtered_results
         in case collect (map (export_row with_types query now) filtered_results) of
              Inl e \<Rightarrow> Inl e
            | Inr body \<Rightarrow>
                Inr \<lparr>columns = [''Entity Name'', ''Match Score'', ''ICIJ ID'']
                         @ (if with_types then [''Type''] else [])
                         @ [''Search Query'', ''Search Date'', ''ICIJ Link''],
                     rows = body\<rparr>))"

text \<open>\<^verbatim>\<open>df[[n1, n2, ...]]\<close>: the named columns, in the order asked for.\<close>

definition select_columns :: "string list \<Rightarrow> dataframe \<Rightarrow> py_error + dataframe" where
  "select_columns names df =
     (if list_all (\<lambda>n. n \<in> set (columns df)) names then
        Inr \<lparr>columns = names,
             rows = map (\<lambda>row. map (\<lambda>n. dict_get (map_of (zip (columns df) row) n) NaN) names)
                      (rows df)\<rparr>
      else Inl KeyError)"

text \<open>
  The table of \<^verbatim>\<open>create_pdf_export\<close>. Lengths are in points, with one inch being 72 of
  them, and are kept as exact fractions.
\<close>

definition inch :: rat where
  "inch = 72"

definition pdf_table_data :: "dataframe \<Rightarrow> cell list list" where
  "pdf_table_data df_export = [map Str (columns df_export)] @ rows df_export"

definition pdf_col_widths :: "dataframe \<Rightarrow> rat list" where
  "pdf_col_widths df_export =
     (let col_widths = [2 * inch, (8 / 10) * inch, (15 / 10) * inch];
          col_widths =
            (if length (columns df_export) > 3 then
               col_widths @ replicate (length (columns df_export) - 3) ((12 / 10) * inch)
             else col_widths)
      in take (length (columns df_export)) col_widths)"

text \<open>
  What \<^verbatim>\<open>main\<close> hands to the three formatters: the whole export frame to the CSV writer
  and to \<^verbatim>\<open>create_excel_export\<close>, and its first three columns to \<^verbatim>\<open>create_pdf_export\<close>,
  of which the table and the column widths are kept here.
\<close>

record exports =
  csv_input :: dataframe
  excel_input :: dataframe
  pdf_table :: "cell list list"
  pdf_widths :: "rat list"

definition export_inputs :: "entity list \<Rightarrow> string \<Rightarrow> string \<Rightarrow> py_error + exports" where
  "export_inputs filtered_results query now =
     (case prepare_export filtered_results query now of
        Inl e \<Rightarrow> Inl e
      | Inr df_export \<Rightarrow>
          (case select_columns [''Entity Name'', ''Match Score'', ''ICIJ ID''] df_export of
             Inl e \<Rightarrow> Inl e
           | Inr df_pdf \<Rightarrow>
               Inr \<lparr>csv_input = df_export, excel_input = df_export,
                    pdf_table = pdf_table_data df_pdf, pdf_widths = pdf_col_widths df_pdf\<rparr>))"

section \<open>Sample records\<close>

text \<open>The two records of the specification's scenarios, and four more with ids.\<close>

definition alpha :: entity where
  "alpha = \<lparr>id' = None, name = Some ''Alpha'', score = Some 90,
            description = Some ''Panama Papers entity'', types = None\<rparr>"

definition beta :: entity where
  "beta = \<lparr>id' = None, name = Some ''Beta'', score = Some 40,
           description = Some ''Unrelated'', types = None\<rparr>"

definition untyped :: entity where
  "untyped = \<lparr>id' = Some ''10001'', name = Some ''Gamma Holdings'', score = Some 75,
              description = Some ''Paradise Papers entity'', types = None\<rparr>"

definition nameless :: entity where
  "nameless = \<lparr>id' = Some ''10002'', name = None, score = Some 60,
               description = Some ''Registered in Panama'', types = Some [Some ''Officer'']\<rparr>"

definition typed :: entity where
  "typed = \<lparr>id' = Some ''10003'', name = Some ''Delta Trust'', score = Some 82,
            description = Some ''Pandora Papers entity'', types = Some [Some ''Entity'']\<rparr>"

definition scoreless :: entity where
  "scoreless = \<lparr>id' = Some ''10004'', name = Some ''Epsilon Ltd'', score = None,
                description = None, types = Some []\<rparr>"

section \<open>Basic facts\<close>

lemmas lower_eval = lower_def lower_char_def char_of_def bit_Suc_0_iff

lemma str_in_iff_sublist: "str_in needle hay \<longleftrightarrow> sublist needle hay"
  by (induction hay) (auto simp: sublist_Cons_right)






text \<open>The display path reads every field by the specification's fallback rule.\<close>

lemma display_is_effective:
  "display_name r = effective_name r" "display_score r = effective_score r"
  "display_description r = effective_description r" "display_type r = effective_type r"
  by (simp_all add: display_name_def effective_name_def display_score_def effective_score_def
      display_description_def effective_description_def display_type_def effective_type_def
      dict_get_def split: option.splits list.splits)

subsection \<open>The stages of the filter\<close>

text \<open>The five stages in a row keep exactly the records that meet all five conditions.\<close>

lemma apply_filters_stages:
  "apply_filters results sources entity_type min_score jurisdiction date_range =
     filter (\<lambda>r. source_stage sources r \<and> type_stage entity_type r \<and> score_stage min_score r
                \<and> jurisdiction_stage jurisdiction r \<and> date_stage date_range r) results"
  unfolding apply_filters_def source_stage_def type_stage_def score_stage_def
    jurisdiction_stage_def date_stage_def Let_def
  by (auto intro!: filter_cong)

lemma apply_filters_inactive: "apply_filters results [] ''All'' 0 [] ''All Time'' = results"
  by (simp add: apply_filters_def Let_def)

lemma apply_filters_type_split:
  "apply_filters results sources entity_type min_score jurisdiction date_range =
     filter (type_stage entity_type)
       (apply_filters results sources ''All'' min_score jurisdiction date_range)"
  by (auto simp: apply_filters_stages type_stage_def intro!: filter_cong)

lemma apply_filters_score_split:
  "apply_filters results sources entity_type min_score jurisdiction date_range =
     filter (score_stage min_score)
       (apply_filters results sources entity_type 0 jurisdiction date_range)"
  by (auto simp: apply_filters_stages score_stage_def intro!: filter_cong)

lemma apply_filters_date_split:
  "apply_filters results sources entity_type min_score jurisdiction date_range =
     filter (date_stage date_range)
       (apply_filters results sources entity_type min_score jurisdiction ''All Time'')"
  by (auto simp: apply_filters_stages date_stage_def intro!: filter_cong)





text \<open>Every read of the filter, in terms of the effective values.\<close>

lemma apply_filters_reads:
  "apply_filters results sources entity_type min_score jurisdiction date_range =
     filter (\<lambda>x.
         (sources = [] \<or> (\<exists>label \<in> set sources.
             sublist (lower label) (lower (effective_description x))
             \<or> sublist (lower label)
                 (lower (case name x of None \<Rightarrow> [] | Some n \<Rightarrow> effective_name x))))
         \<and> (entity_type = ''All'' \<or> (\<exists>t ts. types x = Some (t # ts)
               \<and> (case t of None \<Rightarrow> [] | Some n \<Rightarrow> effective_type x) = entity_type))
         \<and> (min_score > 0 \<longrightarrow> effective_score x \<ge> of_int min_score)
         \<and> (jurisdiction = [] \<or> sublist (lower jurisdiction) (lower (effective_description x))
             \<or> sublist (lower jurisdiction)
                 (lower (case name x of None \<Rightarrow> [] | Some n \<Rightarrow> effective_name x)))
         \<and> (date_range = ''All Time'' \<or> dict_get (map_of date_source_map date_range) [] = []
             \<or> (\<exists>label \<in> set (dict_get (map_of date_source_map date_range) []).
                   sublist (lower label) (lower (effective_description x))))) results"
proof -
  have s: "source_stage sources x \<longleftrightarrow>
      (sources = [] \<or> (\<exists>label \<in> set sources.
             sublist (lower label) (lower (effective_description x))
             \<or> sublist (lower label)
                 (lower (case name x of None \<Rightarrow> [] | Some n \<Rightarrow> effective_name x))))" for x
    by (simp add: source_stage_def list_ex_iff str_in_iff_sublist effective_description_def
        effective_name_def dict_get_def split: option.splits)
  have t: "type_stage entity_type x \<longleftrightarrow>
      (entity_type = ''All'' \<or> (\<exists>t ts. types x = Some (t # ts)
               \<and> (case t of None \<Rightarrow> [] | Some n \<Rightarrow> effective_type x) = entity_type))" for x
    by (auto simp: type_stage_def effective_type_def dict_get_def
        split: option.splits list.splits)
  have m: "score_stage min_score x \<longleftrightarrow>
      (min_score > 0 \<longrightarrow> effective_score x \<ge> of_int min_score)" for x
    by (simp add: score_stage_def effective_score_def dict_get_def)
  have j: "jurisdiction_stage jurisdiction x \<longleftrightarrow>
      (jurisdiction = [] \<or> sublist (lower jurisdiction) (lower (effective_description x))
             \<or> sublist (lower jurisdiction)
                 (lower (case name x of None \<Rightarrow> [] | Some n \<Rightarrow> effective_name x)))" for x
    by (simp add: jurisdiction_stage_def str_in_iff_sublist effective_description_def
        effective_name_def dict_get_def split: option.splits)
  have d: "date_stage date_range x \<longleftrightarrow>
      (date_range = ''All Time'' \<or> dict_get (map_of date_source_map date_range) [] = []
             \<or> (\<exists>label \<in> set (dict_get (map_of date_source_map date_range) []).
                   sublist (lower label) (lower (effective_description x))))" for x
    by (simp add: date_stage_def Let_def list_ex_iff str_in_iff_sublist
        effective_description_def dict_get_def)
  show ?thesis
    unfolding apply_filters_stages s t m j d ..
qed

subsection \<open>The export frame\<close>

lemma collect_map_Inr:
  "collect (map f xs) = Inr ys \<Longrightarrow> list_all2 (\<lambda>x y. f x = Inr y) xs ys"
  by (induction xs arbitrary: ys) (auto split: sum.splits)

lemma list_all2_map_eq:
  "list_all2 R xs ys \<Longrightarrow> (\<And>x y. R x y \<Longrightarrow> g y = h x) \<Longrightarrow> map g ys = map h xs"
  by (induction xs ys rule: list_all2_induct) auto

lemma list_all2_right_ex:
  "list_all2 R xs ys \<Longrightarrow> y \<in> set ys \<Longrightarrow> \<exists>x \<in> set xs. R x y"
  by (induction xs ys rule: list_all2_induct) auto

lemma export_row_shape:
  assumes "export_row w q now r = Inr row"
  shows "\<exists>tp. row = [cell_of Str (name r), cell_of Num (score r), cell_of Str (id' r)] @ tp
                  @ [Str q, Str now, link_cell (id' r)]
             \<and> length tp = (if w then 1 else 0)"
  using assms by (auto simp: export_row_def split: if_splits sum.splits)

lemma prepare_export_Inr:
  assumes "prepare_export rs q now = Inr df"
  shows "columns df = [''Entity Name'', ''Match Score'', ''ICIJ ID'']
           @ (if has_column types rs then [''Type''] else [])
           @ [''Search Query'', ''Search Date'', ''ICIJ Link'']"
    and "list_all2 (\<lambda>r row. export_row (has_column types rs) q now r = Inr row) rs (rows df)"
  using assms
  by (auto simp: prepare_export_def Let_def split: if_splits sum.splits dest: collect_map_Inr)

lemma select_three:
  assumes "columns df = [''Entity Name'', ''Match Score'', ''ICIJ ID''] @ rest"
  shows "select_columns [''Entity Name'', ''Match Score'', ''ICIJ ID''] df =
     Inr \<lparr>columns = [''Entity Name'', ''Match Score'', ''ICIJ ID''],
          rows = map (\<lambda>row. map (\<lambda>n. dict_get (map_of (zip (columns df) row) n) NaN)
                       [''Entity Name'', ''Match Score'', ''ICIJ ID'']) (rows df)\<rparr>"
  using assms by (simp add: select_columns_def)

lemma export_row_cells:
  assumes "export_row w q now x = Inr row"
  shows "row = [case name x of None \<Rightarrow> NaN | Some n \<Rightarrow> Str (effective_name x),
                case score x of None \<Rightarrow> NaN | Some s \<Rightarrow> Num (effective_score x),
                case id' x of None \<Rightarrow> NaN | Some i \<Rightarrow> Str i]
               @ (if w then [Str (effective_type x)] else [])
               @ [Str q, Str now, link_cell (id' x)]"
  using assms
  by (auto simp: export_row_def type_cell_def cell_of_def effective_name_def
      effective_score_def effective_type_def dict_get_def
      split: if_splits sum.splits option.splits list.splits)

lemma prepare_export_rows:
  assumes "prepare_export rs q now = Inr df"
  shows "rows df =
     map (\<lambda>x. [case name x of None \<Rightarrow> NaN | Some n \<Rightarrow> Str (effective_name x),
               case score x of None \<Rightarrow> NaN | Some s \<Rightarrow> Num (effective_score x),
               case id' x of None \<Rightarrow> NaN | Some i \<Rightarrow> Str i]
              @ (if has_column types rs then [Str (effective_type x)] else [])
              @ [Str q, Str now, link_cell (id' x)]) rs"
proof -
  have "map (\<lambda>row. row) (rows df) =
     map (\<lambda>x. [case name x of None \<Rightarrow> NaN | Some n \<Rightarrow> Str (effective_name x),
               case score x of None \<Rightarrow> NaN | Some s \<Rightarrow> Num (effective_score x),
               case id' x of None \<Rightarrow> NaN | Some i \<Rightarrow> Str i]
              @ (if has_column types rs then [Str (effective_type x)] else [])
              @ [Str q, Str now, link_cell (id' x)]) rs"
    using prepare_export_Inr(2) [OF assms] export_row_cells
    by (rule list_all2_map_eq)
  then show ?thesis
    by simp
qed

section \<open>Entity-type filter\<close>

text \<open>
  C1, as stated, fails: the record \<open>untyped\<close> has no types field, so its effective
  type is "Entity", yet the filter with type constraint "Entity" drops it.
\<close>

theorem type_filter_counterexample:
  "effective_type untyped = ''Entity''
   \<and> apply_filters [untyped] [] ''Entity'' 0 [] ''All Time'' = []"
  by (simp add: apply_filters_def Let_def untyped_def effective_type_def)

text \<open>
  C1, amended. For every record list and every type constraint other than "All", the
  filter keeps a record if and only if its types sequence is present and non-empty and
  the name of its first element, read as the empty string when that element has no
  name, equals the constraint exactly. For a record whose first type tag has a name
  this is the comparison of the effective type with the constraint. A record whose
  types are absent or empty is kept under no such constraint; it is the display path
  that shows "Entity" for it.
\<close>

theorem type_filter_first_tag:
  assumes "entity_type \<noteq> ''All''"
  shows "apply_filters results sources entity_type min_score jurisdiction date_range =
           filter (\<lambda>r. \<exists>t ts. types r = Some (t # ts)
                          \<and> (case t of None \<Rightarrow> [] | Some n \<Rightarrow> n) = entity_type)
             (apply_filters results sources ''All'' min_score jurisdiction date_range)
     \<and> (\<forall>n ts. types r = Some (Some n # ts) \<longrightarrow>
           (type_stage entity_type r \<longleftrightarrow> effective_type r = entity_type))
     \<and> (types r = None \<or> types r = Some [] \<longrightarrow>
           \<not> type_stage entity_type r \<and> display_type r = ''Entity'')"
proof -
  have "type_stage entity_type r' \<longleftrightarrow>
          (\<exists>t ts. types r' = Some (t # ts)
              \<and> (case t of None \<Rightarrow> [] | Some n \<Rightarrow> n) = entity_type)" for r'
    using assms
    by (auto simp: type_stage_def dict_get_def split: option.splits list.splits)
  then have "apply_filters results sources entity_type min_score jurisdiction date_range =
           filter (\<lambda>r. \<exists>t ts. types r = Some (t # ts)
                          \<and> (case t of None \<Rightarrow> [] | Some n \<Rightarrow> n) = entity_type)
             (apply_filters results sources ''All'' min_score jurisdiction date_range)"
    by (subst apply_filters_type_split) (simp cong: filter_cong)
  moreover have "\<forall>n ts. types r = Some (Some n # ts) \<longrightarrow>
           (type_stage entity_type r \<longleftrightarrow> effective_type r = entity_type)"
    using assms by (auto simp: type_stage_def effective_type_def dict_get_def)
  moreover have "types r = None \<or> types r = Some [] \<longrightarrow>
           \<not> type_stage entity_type r \<and> display_type r = ''Entity''"
    using assms by (auto simp: type_stage_def display_type_def)
  ultimately show ?thesis
    by blast
qed

theorem type_filter_first_tag_witness:
  "apply_filters [untyped, typed, nameless] [] ''Entity'' 0 [] ''All Time'' = [typed]
   \<and> \<not> type_stage ''Entity'' untyped \<and> display_type untyped = ''Entity''"
proof -
  have ne: "''Entity'' \<noteq> ''All''"
    by simp
  have "types untyped = None \<or> types untyped = Some []"
    by (simp add: untyped_def)
  with type_filter_first_tag [OF ne, of "[untyped, typed, nameless]" "[]" 0 "[]" "''All Time''"
      untyped]
  show ?thesis
    by (simp add: apply_filters_inactive untyped_def typed_def nameless_def)
qed

section \<open>One fallback rule at every read\<close>

text \<open>
  C2, as stated, fails on the record \<open>nameless\<close>, which has no name. The display path
  shows it as "Unknown Entity", a text that contains "entity"; the filter with the
  jurisdiction text "entity" drops it, because it reads the missing name as the empty
  string; and its export row has the missing-value marker in the name column.
\<close>

theorem fallback_rule_counterexample:
  "display_name nameless = ''Unknown Entity''
   \<and> str_in (lower ''entity'') (lower (display_name nameless))
   \<and> apply_filters [nameless] [] ''All'' 0 ''entity'' ''All Time'' = []
   \<and> \<not> isl (prepare_export [typed, nameless] ''delta'' ''2024-05-01 10:00:00'')
   \<and> map (take 4) (rows (projr (prepare_export [typed, nameless] ''delta''
                                   ''2024-05-01 10:00:00''))) =
       [[Str ''Delta Trust'', Num 82, Str ''10003'', Str ''Entity''],
        [NaN, Num 60, Str ''10002'', Str ''Officer'']]"
  by (simp add: display_name_def nameless_def typed_def dict_get_def lower_eval
      apply_filters_def Let_def prepare_export_def has_column_def export_row_def type_cell_def
      cell_of_def)

text \<open>
  C2, amended. The display path computes name, score and type of every record by the
  fallback rule (missing name "Unknown Entity", missing score 0, missing or empty types
  "Entity"). The filter reads the score with the same fallback 0 and the description
  with the fallback of the empty string; a name that is present it reads as it is and a
  missing name as the empty string; its type stage asks for a types sequence that is
  present and non-empty, and compares the name of the first element, which is the
  effective type when that element has a name and the empty string when it has none.
  The export frame, whenever it is built, holds for every record, in order, the name,
  the score and the id as they are in the record, a missing one being a missing-value
  cell, then the effective type when the frame has a type column. So filter, display
  and export observe the same name, score and type on every record that carries them.
\<close>

theorem fallback_agreement:
  "display_name r = effective_name r \<and> display_score r = effective_score r
   \<and> display_type r = effective_type r
   \<and> apply_filters results sources entity_type min_score jurisdiction date_range =
     filter (\<lambda>x.
         (sources = [] \<or> (\<exists>label \<in> set sources.
             sublist (lower label) (lower (effective_description x))
             \<or> sublist (lower label)
                 (lower (case name x of None \<Rightarrow> [] | Some n \<Rightarrow> effective_name x))))
         \<and> (entity_type = ''All'' \<or> (\<exists>t ts. types x = Some (t # ts)
               \<and> (case t of None \<Rightarrow> [] | Some n \<Rightarrow> effective_type x) = entity_type))
         \<and> (min_score > 0 \<longrightarrow> effective_score x \<ge> of_int min_score)
         \<and> (jurisdiction = [] \<or> sublist (lower jurisdiction) (lower (effective_description x))
             \<or> sublist (lower jurisdiction)
                 (lower (case name x of None \<Rightarrow> [] | Some n \<Rightarrow> effective_name x)))
         \<and> (date_range = ''All Time'' \<or> dict_get (map_of date_source_map date_range) [] = []
             \<or> (\<exists>label \<in> set (dict_get (map_of date_source_map date_range) []).
                   sublist (lower label) (lower (effective_description x))))) results
   \<and> (prepare_export filtered_results query now = Inr df \<longrightarrow>
        rows df =
          map (\<lambda>x. [case name x of None \<Rightarrow> NaN | Some n \<Rightarrow> Str (effective_name x),
                    case score x of None \<Rightarrow> NaN | Some s \<Rightarrow> Num (effective_score x),
                    case id' x of None \<Rightarrow> NaN | Some i \<Rightarrow> Str i]
                   @ (if has_column types filtered_results then [Str (effective_type x)] else [])
                   @ [Str query, Str now, link_cell (id' x)]) filtered_results)"
  using display_is_effective(1,2,4) [of r]
    apply_filters_reads [of results sources entity_type min_score jurisdiction date_range]
    prepare_export_rows [of filtered_results query now df]
  by blast

theorem fallback_agreement_witness:
  "apply_filters [typed, nameless, scoreless] [] ''All'' 0 ''unknown'' ''All Time'' = []
   \<and> apply_filters [typed, nameless, scoreless] [] ''All'' 1 ''E'' ''All Time'' =
       [typed, nameless]
   \<and> \<not> isl (prepare_export [typed, nameless, scoreless] ''delta'' ''2024-05-01 10:00:00'')
   \<and> map (take 4) (rows (projr (prepare_export [typed, nameless, scoreless] ''delta''
                                   ''2024-05-01 10:00:00''))) =
       [[Str ''Delta Trust'', Num 82, Str ''10003'', Str ''Entity''],
        [NaN, Num 60, Str ''10002'', Str ''Officer''],
        [Str ''Epsilon Ltd'', NaN, Str ''10004'', Str ''Entity'']]"
proof -
  define e where "e = prepare_export [typed, nameless, scoreless] ''delta'' ''2024-05-01 10:00:00''"
  have ok: "\<not> isl e"
    unfolding e_def
    by (simp add: prepare_export_def has_column_def export_row_def type_cell_def
        typed_def nameless_def scoreless_def)
  then have built: "prepare_export [typed, nameless, scoreless] ''delta'' ''2024-05-01 10:00:00''
      = Inr (projr e)"
    unfolding e_def
    by (cases "prepare_export [typed, nameless, scoreless] ''delta'' ''2024-05-01 10:00:00''")
      simp_all
  have cols: "has_column types [typed, nameless, scoreless]"
    by (simp add: has_column_def typed_def)
  note all = fallback_agreement [of typed "[typed, nameless, scoreless]" "[]" "''All''" 0
      "''unknown''" "''All Time''" "[typed, nameless, scoreless]" "''delta''"
      "''2024-05-01 10:00:00''" "projr e"]
  note flt = all [THEN conjunct2, THEN conjunct2, THEN conjunct2, THEN conjunct1]
  note exp = all [THEN conjunct2, THEN conjunct2, THEN conjunct2, THEN conjunct2, rule_format,
      OF built]
  have a: "apply_filters [typed, nameless, scoreless] [] ''All'' 0 ''unknown'' ''All Time'' = []"
    unfolding flt
    by (simp add: typed_def nameless_def scoreless_def effective_name_def
        effective_description_def lower_eval sublist_code)
  have c: "map (take 4) (rows (projr e)) =
       [[Str ''Delta Trust'', Num 82, Str ''10003'', Str ''Entity''],
        [NaN, Num 60, Str ''10002'', Str ''Officer''],
        [Str ''Epsilon Ltd'', NaN, Str ''10004'', Str ''Entity'']]"
    unfolding exp using cols
    by (simp add: typed_def nameless_def scoreless_def effective_name_def
        effective_score_def effective_type_def)
  note flt2 = fallback_agreement [THEN conjunct2, THEN conjunct2, THEN conjunct2, THEN conjunct1,
      of "[typed, nameless, scoreless]" "[]" "''All''" 1 "''E''" "''All Time''"]
  have b: "apply_filters [typed, nameless, scoreless] [] ''All'' 1 ''E'' ''All Time'' =
       [typed, nameless]"
    unfolding flt2
    by (simp add: typed_def nameless_def scoreless_def effective_name_def
        effective_score_def effective_description_def lower_eval sublist_code)
  from a b c ok show ?thesis
    unfolding e_def by simp
qed

section \<open>The filter as a whole\<close>

text \<open>
  C3. With every criterion at its "no constraint" value (no source selected, type
  constraint "All", minimum score 0, empty jurisdiction text, period "All Time") the
  filter returns the records it was given, same elements in the same order; and on an
  empty record list it returns the empty list, whatever the criteria.
\<close>

theorem apply_filters_defaults_identity:
  "apply_filters results [] ''All'' 0 [] ''All Time'' = results
   \<and> apply_filters [] sources entity_type min_score jurisdiction date_range = []"
  by (simp add: apply_filters_def Let_def)

text \<open>
  C4. Whatever the criteria, the result of the filter is a subsequence of the records it
  was given: the surviving records keep their relative order and there are at most as
  many as before. The function only builds new lists by comprehension and assigns to
  no record and to no position of its argument, which is why it is a pure function here.
\<close>

theorem apply_filters_subseq:
  "subseq (apply_filters results sources entity_type min_score jurisdiction date_range) results
   \<and> length (apply_filters results sources entity_type min_score jurisdiction date_range)
       \<le> length results"
  by (simp add: apply_filters_stages)

section \<open>Source and jurisdiction filters\<close>




section \<open>Date-range filter\<close>

text \<open>
  C6. The date-range filter asks nothing under "All Time". Each of the three other
  buckets has a fixed list of source labels (one label, "Offshore Leaks", for the 2013
  bucket), and under such a bucket the filter keeps, of the records that pass the other
  criteria, exactly those for which the lower-case form of some label of the list is a
  substring of the lower-case form of the effective description. The name of the record
  plays no part in this test.
\<close>

theorem date_range_buckets:
  assumes "date_range \<in> {''2021-Present (Pandora)'', ''2016-2017 (Panama/Paradise/Bahamas)'',
                          ''2013 (Offshore Leaks)''}"
  shows "apply_filters results sources entity_type min_score jurisdiction date_range =
           filter (\<lambda>r. \<exists>label \<in> set (dict_get (map_of date_source_map date_range) []).
                          sublist (lower label) (lower (effective_description r)))
             (apply_filters results sources entity_type min_score jurisdiction ''All Time'')
     \<and> dict_get (map_of date_source_map ''2021-Present (Pandora)'') [] = [''Pandora Papers'']
     \<and> dict_get (map_of date_source_map ''2016-2017 (Panama/Paradise/Bahamas)'') [] =
         [''Panama Papers'', ''Paradise Papers'', ''Bahamas Leaks'']
     \<and> dict_get (map_of date_source_map ''2013 (Offshore Leaks)'') [] = [''Offshore Leaks'']
     \<and> date_stage date_range (r\<lparr>name := n\<rparr>) = date_stage date_range r
     \<and> date_stage ''All Time'' r"
proof -
  have ne: "date_range \<noteq> ''All Time''"
    using assms by auto
  have nonempty: "dict_get (map_of date_source_map date_range) [] \<noteq> []"
    using assms by (auto simp: date_source_map_def dict_get_def)
  have "date_stage date_range r' \<longleftrightarrow>
          (\<exists>label \<in> set (dict_get (map_of date_source_map date_range) []).
              sublist (lower label) (lower (effective_description r')))" for r'
    using ne nonempty
    by (simp add: date_stage_def Let_def list_ex_iff str_in_iff_sublist
        effective_description_def dict_get_def)
  then have "apply_filters results sources entity_type min_score jurisdiction date_range =
           filter (\<lambda>r. \<exists>label \<in> set (dict_get (map_of date_source_map date_range) []).
                          sublist (lower label) (lower (effective_description r)))
             (apply_filters results sources entity_type min_score jurisdiction ''All Time'')"
    by (subst apply_filters_date_split) (simp cong: filter_cong)
  moreover have "date_stage date_range (r\<lparr>name := n\<rparr>) = date_stage date_range r"
    by (simp add: date_stage_def)
  moreover have "date_stage ''All Time'' r"
    by (simp add: date_stage_def)
  ultimately show ?thesis
    by (simp add: date_source_map_def dict_get_def)
qed

theorem date_range_buckets_witness:
  "apply_filters [alpha, beta\<lparr>name := Some ''Offshore Leaks''\<rparr>,
                  beta\<lparr>description := Some ''OFFSHORE leaks record''\<rparr>]
     [] ''All'' 0 [] ''2013 (Offshore Leaks)''
   = [beta\<lparr>description := Some ''OFFSHORE leaks record''\<rparr>]"
proof -
  have "''2013 (Offshore Leaks)'' \<in> {''2021-Present (Pandora)'',
          ''2016-2017 (Panama/Paradise/Bahamas)'', ''2013 (Offshore Leaks)''}"
    by simp
  from date_range_buckets [OF this, of "[alpha, beta\<lparr>name := Some ''Offshore Leaks''\<rparr>,
                  beta\<lparr>description := Some ''OFFSHORE leaks record''\<rparr>]" "[]" "''All''" 0 "[]"]
  show ?thesis
    by (simp add: apply_filters_inactive effective_description_def alpha_def beta_def
        date_source_map_def dict_get_def lower_eval sublist_code)
qed

section \<open>Result limiter\<close>

text \<open>
  C7. For every record sequence and every count \<open>n\<close> (a count is not negative), the
  limiter returns the first \<open>n\<close> records in their order: for any such \<open>n\<close>, with no
  clamping to a range, it is the list's prefix of that length, the whole list when the
  list is not longer than \<open>n\<close>, and limiting twice is limiting once.
\<close>

theorem limit_prefix:
  assumes "0 \<le> max_count"
  shows "limit records max_count = take (nat max_count) records
    \<and> (length records \<le> nat max_count \<longrightarrow> limit records max_count = records)
    \<and> prefix (limit records max_count) records
    \<and> limit (limit records max_count) max_count = limit records max_count"
  using assms by (simp add: limit_def take_is_prefix)

theorem limit_prefix_witness:
  "limit [beta, alpha] 1 = [beta] \<and> limit [alpha, beta] 1 = [alpha]
   \<and> limit [alpha, beta] 5 = [alpha, beta]"
proof -
  have "(0::int) \<le> 1" "(0::int) \<le> 5"
    by simp_all
  from limit_prefix [OF this(1), of "[beta, alpha]"] limit_prefix [OF this(1), of "[alpha, beta]"]
    limit_prefix [OF this(2), of "[alpha, beta]"]
  show ?thesis
    by simp
qed

section \<open>Score filter\<close>

text \<open>
  C8. The score filter is active if and only if the minimum score is greater than 0:
  of the records that pass the other criteria it keeps exactly those whose effective
  score (0 for a missing score) is at least the minimum, the minimum itself included,
  and all of them when the minimum is 0 or less. On the records Alpha (score 90) and
  Beta (score 40) with minimum score 50 the result is Alpha alone.
\<close>

theorem score_filter_inclusive:
  "apply_filters results sources entity_type min_score jurisdiction date_range =
     filter (\<lambda>r. min_score > 0 \<longrightarrow> effective_score r \<ge> of_int min_score)
       (apply_filters results sources entity_type 0 jurisdiction date_range)
   \<and> apply_filters [alpha, beta] [] ''All'' 50 [] ''All Time'' = [alpha]"
proof
  show "apply_filters results sources entity_type min_score jurisdiction date_range =
     filter (\<lambda>r. min_score > 0 \<longrightarrow> effective_score r \<ge> of_int min_score)
       (apply_filters results sources entity_type 0 jurisdiction date_range)"
    by (subst apply_filters_score_split)
       (auto simp: score_stage_def effective_score_def dict_get_def intro!: filter_cong)
  show "apply_filters [alpha, beta] [] ''All'' 50 [] ''All Time'' = [alpha]"
    by (simp add: apply_filters_def Let_def alpha_def beta_def dict_get_def)
qed

theorem score_filter_inclusive_witness:
  "apply_filters [beta\<lparr>score := None\<rparr>, beta\<lparr>score := Some 1\<rparr>] [] ''All'' 1 [] ''All Time''
   = [beta\<lparr>score := Some 1\<rparr>]"
  using score_filter_inclusive
    [of "[beta\<lparr>score := None\<rparr>, beta\<lparr>score := Some 1\<rparr>]" "[]" "''All''" 1 "[]" "''All Time''"]
  by (simp add: apply_filters_inactive effective_score_def)

section \<open>Document formatter\<close>

text \<open>
  C9. Whenever the export of a result set is built, the table handed to the PDF
  formatter has the header row "Entity Name", "Match Score", "ICIJ ID" and one body row
  per record with exactly those three cells (name, score, id); its column widths are
  the constants 2, 0.8 and 1.5 inches, whatever the content. The CSV and spreadsheet
  formatters both receive the whole export frame, which has at least six columns in
  every row.
\<close>

theorem pdf_three_fixed_columns:
  assumes "export_inputs filtered_results query now = Inr ex"
  shows "pdf_table ex =
           [Str ''Entity Name'', Str ''Match Score'', Str ''ICIJ ID'']
           # map (\<lambda>r. [cell_of Str (name r), cell_of Num (score r), cell_of Str (id' r)])
               filtered_results
     \<and> pdf_widths ex = [2 * inch, (8 / 10) * inch, (15 / 10) * inch]
     \<and> excel_input ex = csv_input ex
     \<and> Inr (csv_input ex) = prepare_export filtered_results query now
     \<and> 6 \<le> length (columns (csv_input ex))
     \<and> (\<forall>row \<in> set (rows (csv_input ex)). length row = length (columns (csv_input ex)))"
proof -
  obtain df where df: "prepare_export filtered_results query now = Inr df"
    using assms by (auto simp: export_inputs_def split: sum.splits)
  let ?w = "has_column types filtered_results"
  note cols = prepare_export_Inr(1) [OF df]
  note body = prepare_export_Inr(2) [OF df]
  have sel: "select_columns [''Entity Name'', ''Match Score'', ''ICIJ ID''] df =
     Inr \<lparr>columns = [''Entity Name'', ''Match Score'', ''ICIJ ID''],
          rows = map (\<lambda>row. map (\<lambda>n. dict_get (map_of (zip (columns df) row) n) NaN)
                       [''Entity Name'', ''Match Score'', ''ICIJ ID'']) (rows df)\<rparr>"
    using cols by (intro select_three) simp
  have ex: "ex = \<lparr>csv_input = df, excel_input = df,
        pdf_table = pdf_table_data \<lparr>columns = [''Entity Name'', ''Match Score'', ''ICIJ ID''],
          rows = map (\<lambda>row. map (\<lambda>n. dict_get (map_of (zip (columns df) row) n) NaN)
                       [''Entity Name'', ''Match Score'', ''ICIJ ID'']) (rows df)\<rparr>,
        pdf_widths = pdf_col_widths \<lparr>columns = [''Entity Name'', ''Match Score'', ''ICIJ ID''],
          rows = map (\<lambda>row. map (\<lambda>n. dict_get (map_of (zip (columns df) row) n) NaN)
                       [''Entity Name'', ''Match Score'', ''ICIJ ID'']) (rows df)\<rparr>\<rparr>"
    using assms df sel by (simp add: export_inputs_def)
  have three: "map (\<lambda>n. dict_get (map_of (zip (columns df) row) n) NaN)
                 [''Entity Name'', ''Match Score'', ''ICIJ ID'']
               = [cell_of Str (name r), cell_of Num (score r), cell_of Str (id' r)]"
    if "export_row ?w query now r = Inr row" for r row
    using export_row_shape [OF that] cols by (auto simp: dict_get_def)
  have rows3: "map (\<lambda>row. map (\<lambda>n. dict_get (map_of (zip (columns df) row) n) NaN)
                       [''Entity Name'', ''Match Score'', ''ICIJ ID'']) (rows df)
        = map (\<lambda>r. [cell_of Str (name r), cell_of Num (score r), cell_of Str (id' r)])
               filtered_results"
    using body three by (rule list_all2_map_eq)
  have len: "length row = length (columns df)" if mem: "row \<in> set (rows df)" for row
  proof -
    obtain r where "export_row ?w query now r = Inr row"
      using list_all2_right_ex [OF body mem] by blast
    from export_row_shape [OF this] show ?thesis
      using cols by auto
  qed
  show ?thesis
    using rows3 len cols df
    by (simp add: ex pdf_table_data_def pdf_col_widths_def)
qed

theorem pdf_three_fixed_columns_witness:
  "\<not> isl (export_inputs [typed, nameless] ''delta'' ''2024-05-01 10:00:00'')
   \<and> pdf_table (projr (export_inputs [typed, nameless] ''delta'' ''2024-05-01 10:00:00'')) =
       [[Str ''Entity Name'', Str ''Match Score'', Str ''ICIJ ID''],
        [Str ''Delta Trust'', Num 82, Str ''10003''],
        [NaN, Num 60, Str ''10002'']]
   \<and> pdf_widths (projr (export_inputs [typed, nameless] ''delta'' ''2024-05-01 10:00:00'')) =
       [144, 288 / 5, 108]
   \<and> length (columns (csv_input
         (projr (export_inputs [typed, nameless] ''delta'' ''2024-05-01 10:00:00'')))) = 7"
proof -
  define e where "e = export_inputs [typed, nameless] ''delta'' ''2024-05-01 10:00:00''"
  have r: "\<not> isl e"
    unfolding e_def
    by (simp add: export_inputs_def prepare_export_def has_column_def export_row_def
        type_cell_def select_columns_def typed_def nameless_def)
  then have "export_inputs [typed, nameless] ''delta'' ''2024-05-01 10:00:00'' = Inr (projr e)"
    unfolding e_def
    by (cases "export_inputs [typed, nameless] ''delta'' ''2024-05-01 10:00:00''") simp_all
  from pdf_three_fixed_columns [OF this]
  have "pdf_table (projr e) =
           [Str ''Entity Name'', Str ''Match Score'', Str ''ICIJ ID'']
           # map (\<lambda>r. [cell_of Str (name r), cell_of Num (score r), cell_of Str (id' r)])
               [typed, nameless]"
    and "pdf_widths (projr e) = [2 * inch, (8 / 10) * inch, (15 / 10) * inch]"
    and "Inr (csv_input (projr e)) =
           prepare_export [typed, nameless] ''delta'' ''2024-05-01 10:00:00''"
    by simp_all
  then have "pdf_table (projr e) =
       [[Str ''Entity Name'', Str ''Match Score'', Str ''ICIJ ID''],
        [Str ''Delta Trust'', Num 82, Str ''10003''],
        [NaN, Num 60, Str ''10002'']]"
    and "pdf_widths (projr e) = [144, 288 / 5, 108]"
    and "length (columns (csv_input (projr e))) = 7"
    by (auto simp: typed_def nameless_def cell_of_def inch_def prepare_export_def
        has_column_def export_row_def type_cell_def Let_def)
  with r show ?thesis
    unfolding e_def by simp
qed

section \<open>Unmapped date ranges\<close>

text \<open>
  C10. For a date-range value that is neither "All Time" nor one of the three mapped
  buckets, the lookup of the bucket gives the empty allow-list and the date-range stage
  changes nothing: the filter returns what it returns under "All Time", for every record
  list and all other criteria. No record is dropped on this account and no error arises.
\<close>

theorem unknown_date_range_disabled:
  assumes "date_range \<noteq> ''All Time''"
    and "date_range \<noteq> ''2021-Present (Pandora)''"
    and "date_range \<noteq> ''2016-2017 (Panama/Paradise/Bahamas)''"
    and "date_range \<noteq> ''2013 (Offshore Leaks)''"
  shows "dict_get (map_of date_source_map date_range) [] = []
    \<and> apply_filters results sources entity_type min_score jurisdiction date_range =
       apply_filters results sources entity_type min_score jurisdiction ''All Time''"
proof -
  have none: "map_of date_source_map date_range = None"
    using assms by (simp add: date_source_map_def)
  then have "date_stage date_range r" for r
    by (simp add: date_stage_def dict_get_def)
  then show ?thesis
    using none by (subst apply_filters_date_split) (simp add: dict_get_def)
qed

theorem unknown_date_range_disabled_witness:
  "apply_filters [alpha, beta] [] ''All'' 0 [] ''2010-2012'' = [alpha, beta]"
proof -
  have "''2010-2012'' \<noteq> ''All Time''" "''2010-2012'' \<noteq> ''2021-Present (Pandora)''"
    "''2010-2012'' \<noteq> ''2016-2017 (Panama/Paradise/Bahamas)''"
    "''2010-2012'' \<noteq> ''2013 (Offshore Leaks)''"
    by simp_all
  from unknown_date_range_disabled [OF this, of "[alpha, beta]" "[]" "''All''" 0 "[]"]
  show ?thesis
    by (simp add: apply_filters_inactive)
qed

end
